theory Spec2Isabelle
  imports Main "HOL-Library.Word"
begin

section \<open>Data model of pkg/dynamicinstrumentation/codegen\<close>

text \<open>
  The generator of \<^verbatim>\<open>codegen.go\<close> walks \<^verbatim>\<open>ditypes.Parameter\<close> trees and writes
  the text of parsed \<^verbatim>\<open>text/template\<close> templates into a buffer. The declarations of
  package \<^verbatim>\<open>ditypes\<close> and the template texts live outside \<^verbatim>\<open>codegen.go\<close>, so
  the types below carry exactly the fields that \<^verbatim>\<open>codegen.go\<close> reads or writes.
\<close>

text \<open>
  \<^verbatim>\<open>Parameter.Kind\<close> is a Go \<^verbatim>\<open>uint\<close> (64 bits under the \<^verbatim>\<open>linux_bpf\<close> build tag) that is
  compared against the constants of \<^verbatim>\<open>reflect.Kind\<close>. The numbering is the one of the Go
  standard library.
\<close>

type_synonym kind = "64 word"

definition reflect_Invalid :: kind where "reflect_Invalid = 0"
definition reflect_Int :: kind where "reflect_Int = 2"
definition reflect_Array :: kind where "reflect_Array = 17"
definition reflect_Map :: kind where "reflect_Map = 21"
definition reflect_Pointer :: kind where "reflect_Pointer = 22"
definition reflect_Slice :: kind where "reflect_Slice = 23"
definition reflect_String :: kind where "reflect_String = 24"
definition reflect_Struct :: kind where "reflect_Struct = 25"

text \<open>
  Modelled from the spec: the declaration of \<^verbatim>\<open>ditypes.NotCaptureReason\<close> is missing.
  The spec gives the capture veto as the enumeration None, Unsupported,
  FieldLimitReached; \<^verbatim>\<open>codegen.go\<close> compares against the last two only.
\<close>

datatype NotCaptureReason = NoReason | Unsupported | FieldLimitReached

text \<open>
  Modelled from the spec: the declaration of \<^verbatim>\<open>ditypes.Location\<close> is missing; the
  generator reads its fields \<^verbatim>\<open>InReg\<close> and \<^verbatim>\<open>NeedsDereference\<close>.
\<close>

record Location =
  InReg :: bool
  NeedsDereference :: bool

text \<open>
  Modelled from the spec: the declaration of \<^verbatim>\<open>ditypes.Parameter\<close> is missing; these
  are the fields the generator uses, and the name the spec lists.
\<close>

datatype Parameter =
  Parameter (Name: string) (Type: string) (Kind: kind) (Location: Location)
    (NotCaptureReason: NotCaptureReason) (ParameterPieces: "Parameter list")

text \<open>The assignment \<^verbatim>\<open>param.Type = v\<close>.\<close>

fun set_Type :: "string \<Rightarrow> Parameter \<Rightarrow> Parameter" where
  "set_Type v (Parameter n t k l r ps) = Parameter n v k l r ps"

text \<open>The two wrapper structs declared at the end of \<^verbatim>\<open>codegen.go\<close>.\<close>

record sliceHeaderWrapper =
  sliceParameter :: Parameter
  SliceLengthText :: string
  SliceTypeHeaderText :: string

record stringHeaderWrapper =
  stringParameter :: Parameter
  StringLengthText :: string

subsection \<open>Templates\<close>

text \<open>
  One constructor for each template text constant that \<^verbatim>\<open>codegen.go\<close> parses. The
  constants are declared outside \<^verbatim>\<open>codegen.go\<close>; a template is therefore identified
  by the constant it is parsed from.
\<close>

datatype template =
    stringRegisterHeaderTemplateText
  | stringStackHeaderTemplateText
  | sliceRegisterHeaderTemplateText
  | sliceStackHeaderTemplateText
  | headerTemplateText
  | unsupportedTypeTemplateText
  | cutForFieldLimitTemplateText
  | pointerRegisterTemplateText
  | stringRegisterTemplateText
  | sliceRegisterTemplateText
  | normalValueRegisterTemplateText
  | pointerStackTemplateText
  | stringStackTemplateText
  | sliceStackTemplateText
  | normalValueStackTemplateText
  | stringLengthRegisterTemplateText
  | stringLengthStackTemplateText
  | sliceLengthRegisterTemplateText
  | sliceLengthStackTemplateText

text \<open>What a template is executed against.\<close>

datatype template_data =
    ParamData Parameter
  | SliceWrapperData sliceHeaderWrapper
  | StringWrapperData stringHeaderWrapper

text \<open>
  The errors the generator returns. \<^verbatim>\<open>TemplateError\<close> is an error of the template
  library (from \<^verbatim>\<open>Parse\<close> or \<^verbatim>\<open>Execute\<close>) with its message; the last three wrap such
  an error with \<^verbatim>\<open>%w\<close>. The two \<^verbatim>\<open>nil\<close> checks of \<^verbatim>\<open>generateSliceHeader\<close> and
  \<^verbatim>\<open>generateStringHeader\<close> cannot fire, since their only caller passes the address
  of a local variable; the model passes the parameter itself.
\<close>

datatype error =
    InvalidSliceParameter
  | InvalidStringParameter nat
  | NoTemplateCreated
  | TemplateError string
  | CouldNotExecuteRead error
  | CouldNotExecuteSliceHeader error
  | CouldNotExecuteStringHeader error

text \<open>
  The template library together with the template texts, as a parameter:
  \<^verbatim>\<open>parse t\<close> is the error message of \<^verbatim>\<open>template.New(name).Parse(t)\<close>, if any;
  \<^verbatim>\<open>execute t d\<close> is what \<^verbatim>\<open>Execute(w, d)\<close> writes to \<^verbatim>\<open>w\<close> and the error message it
  returns, if any (the library may have written part of the text when it fails).
\<close>

record engine =
  parse :: "template \<Rightarrow> string option"
  execute :: "template \<Rightarrow> template_data \<Rightarrow> string \<times> string option"

definition parseTemplate :: "engine \<Rightarrow> template \<Rightarrow> error + template" where
  "parseTemplate eng t =
     (case parse eng t of None \<Rightarrow> Inr t | Some msg \<Rightarrow> Inl (TemplateError msg))"

text \<open>\<^verbatim>\<open>tmplt.Execute(out, data)\<close> on a buffer holding \<^verbatim>\<open>out\<close>.\<close>

definition executeTemplate ::
  "engine \<Rightarrow> template \<Rightarrow> template_data \<Rightarrow> string \<Rightarrow> string \<times> error option" where
  "executeTemplate eng t d out =
     (case execute eng t d of (txt, e) \<Rightarrow> (out @ txt, map_option TemplateError e))"

section \<open>Header generation\<close>

definition resolveHeaderTemplate :: "engine \<Rightarrow> Parameter \<Rightarrow> error + template" where
  "resolveHeaderTemplate eng param =
     (if Kind param = reflect_String then
        (if InReg (Location param) then parseTemplate eng stringRegisterHeaderTemplateText
         else parseTemplate eng stringStackHeaderTemplateText)
      else if Kind param = reflect_Slice then
        (if InReg (Location param) then parseTemplate eng sliceRegisterHeaderTemplateText
         else parseTemplate eng sliceStackHeaderTemplateText)
      else parseTemplate eng headerTemplateText)"

definition generateStringLengthHeader ::
  "engine \<Rightarrow> Parameter \<Rightarrow> string \<Rightarrow> string \<times> error option" where
  "generateStringLengthHeader eng stringLengthParamPiece buf =
     (case (if InReg (Location stringLengthParamPiece)
            then parseTemplate eng stringLengthRegisterTemplateText
            else parseTemplate eng stringLengthStackTemplateText) of
        Inl err \<Rightarrow> (buf, Some err)
      | Inr tmplte \<Rightarrow> executeTemplate eng tmplte (ParamData stringLengthParamPiece) buf)"

definition generateSliceLengthHeader ::
  "engine \<Rightarrow> Parameter \<Rightarrow> string \<Rightarrow> string \<times> error option" where
  "generateSliceLengthHeader eng sliceLengthParamPiece buf =
     (case (if InReg (Location sliceLengthParamPiece)
            then parseTemplate eng sliceLengthRegisterTemplateText
            else parseTemplate eng sliceLengthStackTemplateText) of
        Inl err \<Rightarrow> (buf, Some err)
      | Inr tmplte \<Rightarrow> executeTemplate eng tmplte (ParamData sliceLengthParamPiece) buf)"

definition generateStringHeader ::
  "engine \<Rightarrow> Parameter \<Rightarrow> string \<Rightarrow> string \<times> error option" where
  "generateStringHeader eng stringParam out =
     (if length (ParameterPieces stringParam) \<noteq> 2 then
        (out, Some (InvalidStringParameter (length (ParameterPieces stringParam))))
      else
        (case generateStringLengthHeader eng (ParameterPieces stringParam ! 1) [] of
           (buf, Some err) \<Rightarrow> (out, Some err)
         | (buf, None) \<Rightarrow>
             (case resolveHeaderTemplate eng stringParam of
                Inl err \<Rightarrow> (out, Some err)
              | Inr stringTemplate \<Rightarrow>
                  (case executeTemplate eng stringTemplate
                          (StringWrapperData
                             \<lparr>stringParameter = stringParam, StringLengthText = buf\<rparr>) out of
                     (out', Some err) \<Rightarrow> (out', Some (CouldNotExecuteStringHeader err))
                   | (out', None) \<Rightarrow> (out', None)))))"

lemma size_nth_pieces:
  "i < length ps \<Longrightarrow> size (ps ! i) < Suc (size_list size ps)"
proof (induction ps arbitrary: i)
  case Nil
  then show ?case by simp
next
  case (Cons p ps)
  then show ?case by (cases i) (simp, force)
qed

lemma size_pieces: "size_list size (ParameterPieces p) < size p"
  by (cases p) simp

function generateHeadersText ::
    "engine \<Rightarrow> Parameter list \<Rightarrow> string \<Rightarrow> string \<times> error option"
  and generateHeaderText ::
    "engine \<Rightarrow> Parameter \<Rightarrow> string \<Rightarrow> string \<times> error option"
  and generateSliceHeader ::
    "engine \<Rightarrow> Parameter \<Rightarrow> string \<Rightarrow> string \<times> error option"
where
  "generateHeadersText eng [] out = (out, None)"
| "generateHeadersText eng (p # params) out =
     (case generateHeaderText eng p out of
        (out', Some err) \<Rightarrow> (out', Some err)
      | (out', None) \<Rightarrow> generateHeadersText eng params out')"
| "generateHeaderText eng param out =
     (if Kind param = reflect_Slice then generateSliceHeader eng param out
      else if Kind param = reflect_String then generateStringHeader eng param out
      else
        (case resolveHeaderTemplate eng param of
           Inl err \<Rightarrow> (out, Some err)
         | Inr tmplt \<Rightarrow>
             (case executeTemplate eng tmplt (ParamData param) out of
                (out', Some err) \<Rightarrow> (out', Some err)
              | (out', None) \<Rightarrow>
                  (if length (ParameterPieces param) \<noteq> 0
                   then generateHeadersText eng (ParameterPieces param) out'
                   else (out', None)))))"
| "generateSliceHeader eng sliceParam out =
     (if length (ParameterPieces sliceParam) \<noteq> 2 then (out, Some InvalidSliceParameter)
      else
        (case generateHeaderText eng (ParameterPieces sliceParam ! 0) [] of
           (typeHeaderBuf, Some err) \<Rightarrow> (out, Some err)
         | (typeHeaderBuf, None) \<Rightarrow>
             (case generateSliceLengthHeader eng (ParameterPieces sliceParam ! 1) [] of
                (lengthHeaderBuf, Some err) \<Rightarrow> (out, Some err)
              | (lengthHeaderBuf, None) \<Rightarrow>
                  (case resolveHeaderTemplate eng sliceParam of
                     Inl err \<Rightarrow> (out, Some err)
                   | Inr sliceTemplate \<Rightarrow>
                       (case executeTemplate eng sliceTemplate
                               (SliceWrapperData
                                  \<lparr>sliceParameter = sliceParam,
                                   SliceLengthText = lengthHeaderBuf,
                                   SliceTypeHeaderText = typeHeaderBuf\<rparr>) out of
                          (out', Some err) \<Rightarrow> (out', Some (CouldNotExecuteSliceHeader err))
                        | (out', None) \<Rightarrow> (out', None))))))"
  by pat_completeness auto
termination
proof (relation "measure (\<lambda>x. case x of
          Inl (eng, ps, out) \<Rightarrow> 2 * size_list size ps + 1
        | Inr (Inl (eng, p, out)) \<Rightarrow> 2 * size p + 1
        | Inr (Inr (eng, p, out)) \<Rightarrow> 2 * size p)", goal_cases)
  case 1
  show ?case by simp
next
  case (2 eng p params out)
  show ?case by simp
next
  case (3 eng p params out x1 x2)
  show ?case by simp
next
  case (4 eng param out)
  show ?case by simp
next
  case (5 eng param out tmplt x1 x2)
  have "size_list size (ParameterPieces param) < size param"
    by (rule size_pieces)
  then show ?case by simp
next
  case (6 eng sliceParam out)
  then have "0 < length (ParameterPieces sliceParam)" by simp
  then have "size (ParameterPieces sliceParam ! 0) < Suc (size_list size (ParameterPieces sliceParam))"
    by (rule size_nth_pieces)
  moreover have "size_list size (ParameterPieces sliceParam) < size sliceParam"
    by (rule size_pieces)
  ultimately show ?case by simp
qed

declare generateHeaderText.simps [simp del] generateSliceHeader.simps [simp del]

section \<open>Body generation\<close>

text \<open>
  \<^verbatim>\<open>strings.TrimPrefix\<close> of the Go standard library: the string without the prefix
  when it starts with it, the string itself otherwise.
\<close>

definition TrimPrefix :: "string \<Rightarrow> string \<Rightarrow> string" where
  "TrimPrefix s pre =
     (if length pre \<le> length s \<and> take (length pre) s = pre then drop (length pre) s else s)"

definition cleanupTypeName :: "string \<Rightarrow> string" where
  "cleanupTypeName s = TrimPrefix s ''*''"

definition resolveRegisterParameterTemplate :: "engine \<Rightarrow> Parameter \<Rightarrow> error + template" where
  "resolveRegisterParameterTemplate eng param =
     (let needsDereference = NeedsDereference (Location param);
          stringType = (Kind param = reflect_String);
          sliceType = (Kind param = reflect_Slice)
      in if needsDereference then parseTemplate eng pointerRegisterTemplateText
         else if stringType then parseTemplate eng stringRegisterTemplateText
         else if sliceType then parseTemplate eng sliceRegisterTemplateText
         else if \<not> needsDereference then parseTemplate eng normalValueRegisterTemplateText
         else Inl NoTemplateCreated)"

definition resolveStackParameterTemplate :: "engine \<Rightarrow> Parameter \<Rightarrow> error + template" where
  "resolveStackParameterTemplate eng param =
     (let needsDereference = NeedsDereference (Location param);
          stringType = (Kind param = reflect_String);
          sliceType = (Kind param = reflect_Slice)
      in if needsDereference then parseTemplate eng pointerStackTemplateText
         else if stringType then parseTemplate eng stringStackTemplateText
         else if sliceType then parseTemplate eng sliceStackTemplateText
         else if \<not> needsDereference then parseTemplate eng normalValueStackTemplateText
         else Inl NoTemplateCreated)"

definition resolveParameterTemplate :: "engine \<Rightarrow> Parameter \<Rightarrow> error + template" where
  "resolveParameterTemplate eng param =
     (let notSupported = (NotCaptureReason param = Unsupported);
          cutForFieldLimit = (NotCaptureReason param = FieldLimitReached)
      in if notSupported then parseTemplate eng unsupportedTypeTemplateText
         else if cutForFieldLimit then parseTemplate eng cutForFieldLimitTemplateText
         else if InReg (Location param) then resolveRegisterParameterTemplate eng param
         else resolveStackParameterTemplate eng param)"

text \<open>
  \<^verbatim>\<open>generateParameterText\<close> works on a pointer and assigns \<^verbatim>\<open>param.Type\<close>; the model
  returns the parameter as it is left, the buffer and the error.
\<close>

definition generateParameterText ::
  "engine \<Rightarrow> Parameter \<Rightarrow> string \<Rightarrow> Parameter \<times> string \<times> error option" where
  "generateParameterText eng param out =
     (if Kind param = reflect_Array \<or> Kind param = reflect_Struct
         \<or> Kind param = reflect_Pointer then (param, out, None)
      else
        (case resolveParameterTemplate eng param of
           Inl err \<Rightarrow> (param, out, Some err)
         | Inr tmpl \<Rightarrow>
             (let param' = set_Type (cleanupTypeName (Type param)) param
              in case executeTemplate eng tmpl (ParamData param') out of
                   (out', Some err) \<Rightarrow> (param', out', Some (CouldNotExecuteRead err))
                 | (out', None) \<Rightarrow> (param', out', None))))"

fun generateParametersText ::
  "engine \<Rightarrow> Parameter list \<Rightarrow> string \<Rightarrow> Parameter list \<times> string \<times> error option" where
  "generateParametersText eng [] out = ([], out, None)"
| "generateParametersText eng (p # params) out =
     (case generateParameterText eng p out of
        (p', out', Some err) \<Rightarrow> (p' # params, out', Some err)
      | (p', out', None) \<Rightarrow>
          (case generateParametersText eng params out' of
             (params', out'', e) \<Rightarrow> (p' # params', out'', e)))"

section \<open>The entry point\<close>

text \<open>
  The parts of \<^verbatim>\<open>ditypes.Probe\<close> and \<^verbatim>\<open>ditypes.ProcessInfo\<close> that
  \<^verbatim>\<open>GenerateBPFParamsCode\<close> reaches. Indexing the Go map \<^verbatim>\<open>Functions\<close> with a name
  it does not hold yields the empty slice.
\<close>

record InstrumentationOptions =
  CaptureParameters :: bool
  MaxReferenceDepth :: int

record InstrumentationInfo =
  InstrumentationOptions :: InstrumentationOptions
  BPFParametersSourceCode :: string

record Probe =
  FuncName :: string
  InstrumentationInfo :: InstrumentationInfo

record TypeMap =
  Functions :: "string \<rightharpoonup> Parameter list"

record ProcessInfo =
  TypeMap :: TypeMap

text \<open>
  The three helpers that \<^verbatim>\<open>GenerateBPFParamsCode\<close> calls and that are defined outside
  \<^verbatim>\<open>codegen.go\<close>, as parameters.
  \<^verbatim>\<open>applyFieldCountLimit\<close> changes its argument in place; here it returns the list
  as changed.
\<close>

record helpers =
  applyCaptureDepth :: "Parameter list \<Rightarrow> int \<Rightarrow> Parameter list"
  applyFieldCountLimit :: "Parameter list \<Rightarrow> Parameter list"
  flattenParameters :: "Parameter list \<Rightarrow> Parameter list"

datatype log_entry = Info string

text \<open>The loop \<^verbatim>\<open>for i := range params\<close> of \<^verbatim>\<open>GenerateBPFParamsCode\<close>.\<close>

fun generateTopLevel ::
  "helpers \<Rightarrow> engine \<Rightarrow> Parameter list \<Rightarrow> string \<Rightarrow> string \<times> error option" where
  "generateTopLevel h eng [] out = (out, None)"
| "generateTopLevel h eng (p # params) out =
     (let flattenedParams = flattenParameters h [p]
      in case generateHeadersText eng flattenedParams out of
           (out1, Some err) \<Rightarrow> (out1, Some err)
         | (out1, None) \<Rightarrow>
             (case generateParametersText eng flattenedParams out1 of
                (flattened', out2, Some err) \<Rightarrow> (out2, Some err)
              | (flattened', out2, None) \<Rightarrow> generateTopLevel h eng params out2))"

text \<open>
  The result is the probe as the call leaves it, the lines logged and the error
  returned. The buffer \<^verbatim>\<open>out\<close> is local to the call: the probe is assigned only on
  the last line before \<^verbatim>\<open>return nil\<close>.
\<close>

definition GenerateBPFParamsCode ::
  "helpers \<Rightarrow> engine \<Rightarrow> ProcessInfo \<Rightarrow> Probe \<Rightarrow> Probe \<times> log_entry list \<times> error option" where
  "GenerateBPFParamsCode h eng procInfo probe =
     (let opts = InstrumentationOptions (InstrumentationInfo probe)
      in if CaptureParameters opts then
           (let params = applyFieldCountLimit h
                  (applyCaptureDepth h
                     (case Functions (TypeMap procInfo) (FuncName probe) of
                        None \<Rightarrow> [] | Some ps \<Rightarrow> ps)
                     (MaxReferenceDepth opts))
            in case generateTopLevel h eng params [] of
                 (out, Some err) \<Rightarrow> (probe, [], Some err)
               | (out, None) \<Rightarrow>
                   (probe\<lparr>InstrumentationInfo :=
                        (InstrumentationInfo probe)\<lparr>BPFParametersSourceCode := out\<rparr>\<rparr>,
                    [], None))
         else
           (probe\<lparr>InstrumentationInfo :=
                (InstrumentationInfo probe)\<lparr>BPFParametersSourceCode := []\<rparr>\<rparr>,
            [Info ''Not capturing parameters''], None))"


section \<open>A concrete template engine and example inputs\<close>

text \<open>The names the source gives the templates in \<^verbatim>\<open>template.New\<close>.\<close>

fun templateName :: "template \<Rightarrow> string" where
  "templateName stringRegisterHeaderTemplateText = ''string_reg_header_template''"
| "templateName stringStackHeaderTemplateText = ''string_stack_header_template''"
| "templateName sliceRegisterHeaderTemplateText = ''slice_reg_header_template''"
| "templateName sliceStackHeaderTemplateText = ''slice_stack_header_template''"
| "templateName headerTemplateText = ''header_template''"
| "templateName unsupportedTypeTemplateText = ''unsupported_type_template''"
| "templateName cutForFieldLimitTemplateText = ''cut_field_limit_template''"
| "templateName pointerRegisterTemplateText = ''pointer_register_template''"
| "templateName stringRegisterTemplateText = ''string_register_template''"
| "templateName sliceRegisterTemplateText = ''slice_register_template''"
| "templateName normalValueRegisterTemplateText = ''register_template''"
| "templateName pointerStackTemplateText = ''pointer_stack_template''"
| "templateName stringStackTemplateText = ''string_stack_template''"
| "templateName sliceStackTemplateText = ''slice_stack_template''"
| "templateName normalValueStackTemplateText = ''stack_template''"
| "templateName stringLengthRegisterTemplateText = ''string_register_length_header''"
| "templateName stringLengthStackTemplateText = ''string_stack_length_header''"
| "templateName sliceLengthRegisterTemplateText = ''slice_register_length_header''"
| "templateName sliceLengthStackTemplateText = ''slice_stack_length_header''"

text \<open>
  An engine to run the generator on examples: every template parses, and executing
  one writes its name followed by the name and type label of the parameter and, for
  a wrapper, the child texts it carries.
\<close>

fun echoData :: "template_data \<Rightarrow> string" where
  "echoData (ParamData p) = Name p @ '':'' @ Type p"
| "echoData (SliceWrapperData w) =
     Name (sliceParameter w) @ ''['' @ SliceTypeHeaderText w @ ''|'' @ SliceLengthText w @ '']''"
| "echoData (StringWrapperData w) =
     Name (stringParameter w) @ ''['' @ StringLengthText w @ '']''"

definition echoEngine :: engine where
  "echoEngine =
     \<lparr>parse = (\<lambda>t. None),
      execute = (\<lambda>t d. (templateName t @ ''('' @ echoData d @ '');'', None))\<rparr>"

text \<open>Helpers that leave the parameters as they are.\<close>

definition plainHelpers :: helpers where
  "plainHelpers =
     \<lparr>applyCaptureDepth = (\<lambda>ps d. ps),
      applyFieldCountLimit = (\<lambda>ps. ps),
      flattenParameters = (\<lambda>ps. ps)\<rparr>"

definition onReg :: Location where
  "onReg = \<lparr>InReg = True, NeedsDereference = False\<rparr>"

definition onStack :: Location where
  "onStack = \<lparr>InReg = False, NeedsDereference = False\<rparr>"

definition intParam :: Parameter where
  "intParam = Parameter ''n'' ''int'' reflect_Int onReg NoReason []"

definition lenPiece :: Parameter where
  "lenPiece = Parameter ''len'' ''int'' reflect_Int onStack NoReason []"

definition emptyString :: Parameter where
  "emptyString = Parameter ''s'' ''string'' reflect_String onReg NoReason []"

definition goodString :: Parameter where
  "goodString = Parameter ''s'' ''string'' reflect_String onReg NoReason [intParam, lenPiece]"

definition goodSlice :: Parameter where
  "goodSlice = Parameter ''xs'' ''[]int'' reflect_Slice onReg NoReason [intParam, lenPiece]"

definition brokenSlice :: Parameter where
  "brokenSlice =
     Parameter ''ys'' ''[]string'' reflect_Slice onStack NoReason [emptyString, lenPiece]"

definition vetoedStruct :: Parameter where
  "vetoedStruct = Parameter ''w'' ''*Widget'' reflect_Struct onReg Unsupported []"

definition vetoedInt :: Parameter where
  "vetoedInt = Parameter ''k'' ''*Widget'' reflect_Int onStack FieldLimitReached []"

definition intParamOnStack :: Parameter where
  "intParamOnStack = Parameter ''n'' ''int'' reflect_Int onStack NoReason []"

definition derefString :: Parameter where
  "derefString =
     Parameter ''sp'' ''*string'' reflect_String \<lparr>InReg = True, NeedsDereference = True\<rparr>
       NoReason [intParam, lenPiece]"



definition unnamedSliceA :: Parameter where
  "unnamedSliceA = Parameter ''a'' ''[]int'' reflect_Slice onReg NoReason []"

definition unnamedSliceB :: Parameter where
  "unnamedSliceB = Parameter ''b'' ''[]bool'' reflect_Slice onStack NoReason [intParam]"

definition oldProbe :: Probe where
  "oldProbe =
     \<lparr>FuncName = ''main.f'',
      InstrumentationInfo =
        \<lparr>InstrumentationOptions = \<lparr>CaptureParameters = False, MaxReferenceDepth = 3\<rparr>,
         BPFParametersSourceCode = ''old''\<rparr>\<rparr>"


definition brokenProcInfo :: ProcessInfo where
  "brokenProcInfo =
     \<lparr>TypeMap = \<lparr>Functions = [''main.f'' \<mapsto> [intParam, brokenSlice, goodString]]\<rparr>\<rparr>"

section \<open>The dispatch tables as the specification words them\<close>

text \<open>
  The body-template precedence in the words of the specification: the pointer-read
  template when a dereference is needed, else the string-read template for a string,
  else the slice-read template for a slice, else the plain-value template; each in
  the register or stack flavour of the location. It is compared below with
  \<^const>\<open>resolveParameterTemplate\<close>, which is the translation of the source.
\<close>

definition spec_bodyTemplate :: "Parameter \<Rightarrow> template" where
  "spec_bodyTemplate p =
     (if NeedsDereference (Location p) then
        (if InReg (Location p) then pointerRegisterTemplateText else pointerStackTemplateText)
      else if Kind p = reflect_String then
        (if InReg (Location p) then stringRegisterTemplateText else stringStackTemplateText)
      else if Kind p = reflect_Slice then
        (if InReg (Location p) then sliceRegisterTemplateText else sliceStackTemplateText)
      else
        (if InReg (Location p) then normalValueRegisterTemplateText
         else normalValueStackTemplateText))"

text \<open>
  The stub that the specification assigns to a capture veto: the "unsupported type"
  stub for \<^const>\<open>Unsupported\<close>, the "field limit reached" stub for
  \<^const>\<open>FieldLimitReached\<close>.
\<close>

definition spec_stubTemplate :: "NotCaptureReason \<Rightarrow> template" where
  "spec_stubTemplate r =
     (if r = Unsupported then unsupportedTypeTemplateText else cutForFieldLimitTemplateText)"

section \<open>Auxiliary facts\<close>

lemmas kind_defs = reflect_Invalid_def reflect_Int_def reflect_Array_def reflect_Map_def
  reflect_Pointer_def reflect_Slice_def reflect_String_def reflect_Struct_def


lemma parseTemplate_echo: "parseTemplate echoEngine t = Inr t"
  by (simp add: parseTemplate_def echoEngine_def)

lemma generateHeaderText_Slice:
  "Kind p = reflect_Slice \<Longrightarrow> generateHeaderText eng p out = generateSliceHeader eng p out"
  by (simp add: generateHeaderText.simps)

lemma generateHeaderText_String:
  "Kind p = reflect_String \<Longrightarrow> generateHeaderText eng p out = generateStringHeader eng p out"
  by (simp add: generateHeaderText.simps kind_defs)

text \<open>
  What \<^const>\<open>generateParameterText\<close> does once it is past the container check and
  a template has been resolved: the type label is cleaned, the template is executed
  against the parameter with the cleaned label, and an execution error is wrapped.
\<close>

lemma generateParameterText_resolved:
  assumes "Kind p \<noteq> reflect_Array" "Kind p \<noteq> reflect_Struct" "Kind p \<noteq> reflect_Pointer"
    and "resolveParameterTemplate eng p = Inr t"
    and "execute eng t (ParamData (set_Type (cleanupTypeName (Type p)) p)) = (txt, e)"
  shows "generateParameterText eng p out =
           (set_Type (cleanupTypeName (Type p)) p, out @ txt,
            map_option (\<lambda>m. CouldNotExecuteRead (TemplateError m)) e)"
  using assms
  by (cases e) (simp_all add: generateParameterText_def executeTemplate_def Let_def)

lemma set_Type_sel [simp]:
  "Name (set_Type v p) = Name p" "Type (set_Type v p) = v" "Kind (set_Type v p) = Kind p"
  "Location (set_Type v p) = Location p" "NotCaptureReason (set_Type v p) = NotCaptureReason p"
  "ParameterPieces (set_Type v p) = ParameterPieces p"
  by (cases p; simp)+

lemma generateSliceLengthHeader_ok:
  "generateSliceLengthHeader eng q buf = (buf', None) \<longleftrightarrow>
     (\<exists>w. parse eng (if InReg (Location q) then sliceLengthRegisterTemplateText
                      else sliceLengthStackTemplateText) = None
        \<and> execute eng (if InReg (Location q) then sliceLengthRegisterTemplateText
                        else sliceLengthStackTemplateText) (ParamData q) = (w, None)
        \<and> buf' = buf @ w)"
  by (auto simp add: generateSliceLengthHeader_def parseTemplate_def executeTemplate_def
      split: option.splits prod.splits)

lemma resolveHeaderTemplate_Slice:
  "Kind s = reflect_Slice \<Longrightarrow>
   resolveHeaderTemplate eng s =
     parseTemplate eng (if InReg (Location s) then sliceRegisterHeaderTemplateText
                        else sliceStackHeaderTemplateText)"
  by (simp add: resolveHeaderTemplate_def kind_defs)

lemma generateSliceHeader_two:
  assumes "ParameterPieces s = [elem, len]"
  shows "generateSliceHeader eng s out =
     (case generateHeaderText eng elem [] of
        (ta, Some err) \<Rightarrow> (out, Some err)
      | (ta, None) \<Rightarrow>
          (case generateSliceLengthHeader eng len [] of
             (tb, Some err) \<Rightarrow> (out, Some err)
           | (tb, None) \<Rightarrow>
               (case resolveHeaderTemplate eng s of
                  Inl err \<Rightarrow> (out, Some err)
                | Inr t \<Rightarrow>
                    (case executeTemplate eng t
                            (SliceWrapperData
                               \<lparr>sliceParameter = s, SliceLengthText = tb,
                                SliceTypeHeaderText = ta\<rparr>) out of
                       (out', Some err) \<Rightarrow> (out', Some (CouldNotExecuteSliceHeader err))
                     | (out', None) \<Rightarrow> (out', None)))))"
  using assms by (subst generateSliceHeader.simps) simp

lemma length_two: "length xs = 2 \<longleftrightarrow> (\<exists>a b. xs = [a, b])"
  by (auto simp add: numeral_2_eq_2 length_Suc_conv)

lemma generateStringHeader_malformed:
  "length (ParameterPieces p) \<noteq> 2 \<Longrightarrow>
   generateStringHeader eng p out = (out, Some (InvalidStringParameter (length (ParameterPieces p))))"
  by (simp add: generateStringHeader_def)

lemma generateSliceHeader_malformed:
  "length (ParameterPieces p) \<noteq> 2 \<Longrightarrow>
   generateSliceHeader eng p out = (out, Some InvalidSliceParameter)"
  by (subst generateSliceHeader.simps) simp

lemma executeTemplate_infallible:
  assumes "\<And>t d. snd (execute eng t d) = None"
  shows "\<exists>out'. executeTemplate eng t d out = (out', None)"
  using assms [of t d] by (cases "execute eng t d") (simp add: executeTemplate_def)

lemma parseTemplate_infallible:
  assumes "\<And>t. parse eng t = None"
  shows "parseTemplate eng t = Inr t"
  using assms by (simp add: parseTemplate_def)

lemma resolveHeaderTemplate_infallible:
  assumes "\<And>t. parse eng t = None"
  shows "\<exists>t. resolveHeaderTemplate eng s = Inr t"
  by (simp add: resolveHeaderTemplate_def parseTemplate_infallible [OF assms])

lemma generateStringLengthHeader_infallible:
  assumes p: "\<And>t. parse eng t = None" and x: "\<And>t d. snd (execute eng t d) = None"
  shows "\<exists>buf'. generateStringLengthHeader eng q buf = (buf', None)"
  using executeTemplate_infallible [OF x]
  by (simp add: generateStringLengthHeader_def parseTemplate_infallible [OF p])

lemma generateSliceLengthHeader_infallible:
  assumes p: "\<And>t. parse eng t = None" and x: "\<And>t d. snd (execute eng t d) = None"
  shows "\<exists>buf'. generateSliceLengthHeader eng q buf = (buf', None)"
  using executeTemplate_infallible [OF x]
  by (simp add: generateSliceLengthHeader_def parseTemplate_infallible [OF p])

lemma generateStringHeader_infallible:
  assumes p: "\<And>t. parse eng t = None" and x: "\<And>t d. snd (execute eng t d) = None"
    and two: "length (ParameterPieces s) = 2"
  shows "snd (generateStringHeader eng s out) = None"
proof -
  from two obtain a b where ps: "ParameterPieces s = [a, b]"
    unfolding length_two by blast
  obtain buf where l: "generateStringLengthHeader eng b [] = (buf, None)"
    using generateStringLengthHeader_infallible [OF p x] by blast
  obtain t where r: "resolveHeaderTemplate eng s = Inr t"
    using resolveHeaderTemplate_infallible [OF p] by blast
  obtain out' where
    y: "executeTemplate eng t
          (StringWrapperData \<lparr>stringParameter = s, StringLengthText = buf\<rparr>) out = (out', None)"
    using executeTemplate_infallible [OF x] by blast
  have "generateStringHeader eng s out = (out', None)"
    by (simp add: generateStringHeader_def ps l r y)
  then show ?thesis by simp
qed

lemma generateSliceHeader_infallible:
  assumes p: "\<And>t. parse eng t = None" and x: "\<And>t d. snd (execute eng t d) = None"
    and two: "length (ParameterPieces s) = 2"
  shows "snd (generateSliceHeader eng s out) = None \<longleftrightarrow>
         snd (generateHeaderText eng (ParameterPieces s ! 0) []) = None"
proof -
  from two obtain a b where ps: "ParameterPieces s = [a, b]"
    unfolding length_two by blast
  obtain ta ea where a: "generateHeaderText eng a [] = (ta, ea)"
    by (cases "generateHeaderText eng a []")
  obtain tb where b: "generateSliceLengthHeader eng b [] = (tb, None)"
    using generateSliceLengthHeader_infallible [OF p x] by blast
  obtain t where r: "resolveHeaderTemplate eng s = Inr t"
    using resolveHeaderTemplate_infallible [OF p] by blast
  obtain out' where
    y: "executeTemplate eng t
          (SliceWrapperData \<lparr>sliceParameter = s, SliceLengthText = tb,
             SliceTypeHeaderText = ta\<rparr>) out = (out', None)"
    using executeTemplate_infallible [OF x] by blast
  have "snd (generateSliceHeader eng s out) = ea"
    by (cases ea) (simp_all add: generateSliceHeader_two [OF ps] a b r y)
  then show ?thesis by (simp add: ps a)
qed


lemmas example_defs = intParam_def lenPiece_def emptyString_def goodString_def goodSlice_def
  brokenSlice_def onReg_def onStack_def

section \<open>The claims\<close>

text \<open>
  C4. For every parameter whose kind is array, struct or pointer, body generation
  writes nothing and returns no error, whatever its location, its capture veto and
  its pieces: the buffer and the parameter come back as they were.
\<close>

theorem container_body_is_noop:
  assumes "Kind p = reflect_Array \<or> Kind p = reflect_Struct \<or> Kind p = reflect_Pointer"
  shows "generateParameterText eng p out = (p, out, None)"
  using assms by (auto simp add: generateParameterText_def)

theorem container_body_is_noop_witness:
  "generateParameterText echoEngine vetoedStruct ''abc'' = (vetoedStruct, ''abc'', None)"
proof -
  have "Kind vetoedStruct = reflect_Struct" by (simp add: vetoedStruct_def)
  then show ?thesis
    using container_body_is_noop [of vetoedStruct echoEngine "''abc''"] by blast
qed

text \<open>
  C10. For every parameter whose kind is neither string nor slice, header-template
  resolution yields the one default header template, whatever \<^verbatim>\<open>Location.InReg\<close> is;
  so two such parameters resolve to the same template.
\<close>

theorem header_template_ignores_register:
  assumes "Kind p \<noteq> reflect_String" "Kind p \<noteq> reflect_Slice"
    and "Kind q \<noteq> reflect_String" "Kind q \<noteq> reflect_Slice"
  shows "resolveHeaderTemplate eng p = parseTemplate eng headerTemplateText
       \<and> resolveHeaderTemplate eng q = resolveHeaderTemplate eng p"
  using assms by (simp add: resolveHeaderTemplate_def)

theorem header_template_ignores_register_witness:
  "resolveHeaderTemplate echoEngine intParam = Inr headerTemplateText
   \<and> resolveHeaderTemplate echoEngine intParamOnStack = resolveHeaderTemplate echoEngine intParam
   \<and> InReg (Location intParam) \<noteq> InReg (Location intParamOnStack)"
proof -
  have k: "Kind intParam \<noteq> reflect_String" "Kind intParam \<noteq> reflect_Slice"
    "Kind intParamOnStack \<noteq> reflect_String" "Kind intParamOnStack \<noteq> reflect_Slice"
    by (simp_all add: intParam_def intParamOnStack_def kind_defs)
  have "InReg (Location intParam) \<noteq> InReg (Location intParamOnStack)"
    by (simp add: intParam_def intParamOnStack_def onReg_def onStack_def)
  then show ?thesis
    using header_template_ignores_register [OF k, of echoEngine]
    by (simp add: parseTemplate_echo)
qed

text \<open>
  C5. For every parameter without a capture veto, body-template resolution follows
  the precedence of the specification: dereference first (also for a string or a
  slice), then string, then slice, then the plain value, in the flavour given by
  \<^verbatim>\<open>Location.InReg\<close>. The parse of that template is what resolution returns; for a
  parameter that is not a container, body generation executes it against the
  parameter with its cleaned type label.
\<close>

theorem body_dispatch_precedence:
  assumes "NotCaptureReason p = NoReason"
  shows "resolveParameterTemplate eng p = parseTemplate eng (spec_bodyTemplate p)
       \<and> (Kind p \<noteq> reflect_Array \<and> Kind p \<noteq> reflect_Struct \<and> Kind p \<noteq> reflect_Pointer
            \<and> parse eng (spec_bodyTemplate p) = None \<longrightarrow>
          fst (snd (generateParameterText eng p out)) =
            out @ fst (execute eng (spec_bodyTemplate p)
                         (ParamData (set_Type (cleanupTypeName (Type p)) p))))"
proof -
  have r: "resolveParameterTemplate eng p = parseTemplate eng (spec_bodyTemplate p)"
    using assms
    by (simp add: resolveParameterTemplate_def resolveRegisterParameterTemplate_def
        resolveStackParameterTemplate_def spec_bodyTemplate_def Let_def)
  have "fst (snd (generateParameterText eng p out)) =
            out @ fst (execute eng (spec_bodyTemplate p)
                         (ParamData (set_Type (cleanupTypeName (Type p)) p)))"
    if c: "Kind p \<noteq> reflect_Array" "Kind p \<noteq> reflect_Struct" "Kind p \<noteq> reflect_Pointer"
      and ok: "parse eng (spec_bodyTemplate p) = None"
  proof -
    obtain w e where x: "execute eng (spec_bodyTemplate p)
            (ParamData (set_Type (cleanupTypeName (Type p)) p)) = (w, e)"
      by (cases "execute eng (spec_bodyTemplate p)
            (ParamData (set_Type (cleanupTypeName (Type p)) p))")
    have "resolveParameterTemplate eng p = Inr (spec_bodyTemplate p)"
      using r ok by (simp add: parseTemplate_def)
    from generateParameterText_resolved [OF c this x] show ?thesis
      by (simp add: x)
  qed
  with r show ?thesis by blast
qed

theorem body_dispatch_precedence_witness:
  "Kind derefString = reflect_String
   \<and> resolveParameterTemplate echoEngine derefString = Inr pointerRegisterTemplateText
   \<and> fst (snd (generateParameterText echoEngine derefString ''>'')) =
       ''>pointer_register_template(sp:string);''"
proof -
  have v: "NotCaptureReason derefString = NoReason" by (simp add: derefString_def)
  have t: "spec_bodyTemplate derefString = pointerRegisterTemplateText"
    by (simp add: spec_bodyTemplate_def derefString_def)
  have k: "Kind derefString = reflect_String" by (simp add: derefString_def)
  have c: "Kind derefString \<noteq> reflect_Array \<and> Kind derefString \<noteq> reflect_Struct
        \<and> Kind derefString \<noteq> reflect_Pointer
        \<and> parse echoEngine (spec_bodyTemplate derefString) = None"
    by (simp add: derefString_def kind_defs echoEngine_def)
  have x: "fst (execute echoEngine pointerRegisterTemplateText
             (ParamData (set_Type (cleanupTypeName (Type derefString)) derefString))) =
           ''pointer_register_template(sp:string);''"
    by (simp add: echoEngine_def derefString_def cleanupTypeName_def TrimPrefix_def)
  from body_dispatch_precedence [OF v, of echoEngine "''>''"] c k show ?thesis
    by (simp add: t x parseTemplate_echo)
qed

text \<open>
  C7. When \<^verbatim>\<open>CaptureParameters\<close> is false, generation stores the empty text in
  \<^verbatim>\<open>BPFParametersSourceCode\<close> of the probe, leaves the rest of the probe alone,
  logs the one informational line and returns no error, whatever the helpers, the
  templates and the parameter trees of the process are.
\<close>

theorem disabled_capture:
  assumes "\<not> CaptureParameters (InstrumentationOptions (InstrumentationInfo probe))"
  shows "GenerateBPFParamsCode h eng procInfo probe =
           (probe\<lparr>InstrumentationInfo :=
                (InstrumentationInfo probe)\<lparr>BPFParametersSourceCode := []\<rparr>\<rparr>,
            [Info ''Not capturing parameters''], None)"
  using assms by (simp add: GenerateBPFParamsCode_def Let_def)

theorem disabled_capture_witness:
  "GenerateBPFParamsCode plainHelpers echoEngine brokenProcInfo oldProbe =
     (\<lparr>FuncName = ''main.f'',
       InstrumentationInfo =
         \<lparr>InstrumentationOptions = \<lparr>CaptureParameters = False, MaxReferenceDepth = 3\<rparr>,
          BPFParametersSourceCode = []\<rparr>\<rparr>,
      [Info ''Not capturing parameters''], None)"
proof -
  have "\<not> CaptureParameters (InstrumentationOptions (InstrumentationInfo oldProbe))"
    by (simp add: oldProbe_def)
  from disabled_capture [OF this, of plainHelpers echoEngine brokenProcInfo]
  show ?thesis by (simp add: oldProbe_def)
qed



text \<open>
  C6. For a slice parameter with the two pieces \<^verbatim>\<open>elem\<close> and \<^verbatim>\<open>len\<close>, header
  generation succeeds with buffer \<^verbatim>\<open>out'\<close> exactly when header generation of
  \<^verbatim>\<open>elem\<close> into a fresh buffer succeeds with some text \<^verbatim>\<open>ta\<close>, the length template
  in the flavour of \<^verbatim>\<open>len\<close>'s \<^verbatim>\<open>InReg\<close> parses and renders \<^verbatim>\<open>len\<close> to some text
  \<^verbatim>\<open>tb\<close>, the slice header template in the flavour of the slice's own \<^verbatim>\<open>InReg\<close>
  parses and renders the wrapper holding the slice, \<^verbatim>\<open>tb\<close> and \<^verbatim>\<open>ta\<close> to some
  text \<^verbatim>\<open>w\<close>, and \<^verbatim>\<open>out'\<close> is the old buffer followed by \<^verbatim>\<open>w\<close> alone: the child
  texts reach the output only inside the outer rendering.
\<close>

theorem slice_header_composition:
  assumes "Kind s = reflect_Slice" and "ParameterPieces s = [elem, len]"
  shows "generateHeaderText eng s out = (out', None) \<longleftrightarrow>
     (\<exists>ta tb w.
        generateHeaderText eng elem [] = (ta, None)
      \<and> parse eng (if InReg (Location len) then sliceLengthRegisterTemplateText
                    else sliceLengthStackTemplateText) = None
      \<and> execute eng (if InReg (Location len) then sliceLengthRegisterTemplateText
                      else sliceLengthStackTemplateText) (ParamData len) = (tb, None)
      \<and> parse eng (if InReg (Location s) then sliceRegisterHeaderTemplateText
                    else sliceStackHeaderTemplateText) = None
      \<and> execute eng (if InReg (Location s) then sliceRegisterHeaderTemplateText
                      else sliceStackHeaderTemplateText)
           (SliceWrapperData
              \<lparr>sliceParameter = s, SliceLengthText = tb, SliceTypeHeaderText = ta\<rparr>) = (w, None)
      \<and> out' = out @ w)"
    (is "?L \<longleftrightarrow> ?R")
proof
  assume l: ?L
  obtain ta ea where a: "generateHeaderText eng elem [] = (ta, ea)"
    by (cases "generateHeaderText eng elem []")
  obtain tb eb where b: "generateSliceLengthHeader eng len [] = (tb, eb)"
    by (cases "generateSliceLengthHeader eng len []")
  from l have g: "generateSliceHeader eng s out = (out', None)"
    by (simp add: generateHeaderText_Slice [OF assms(1)])
  from g a have ea: "ea = None"
    by (cases ea) (simp_all add: generateSliceHeader_two [OF assms(2)])
  from g a b ea have eb: "eb = None"
    by (cases eb) (simp_all add: generateSliceHeader_two [OF assms(2)])
  let ?t = "if InReg (Location s) then sliceRegisterHeaderTemplateText
            else sliceStackHeaderTemplateText"
  let ?d = "SliceWrapperData \<lparr>sliceParameter = s, SliceLengthText = tb, SliceTypeHeaderText = ta\<rparr>"
  from g a b ea eb have p: "parse eng ?t = None"
    by (cases "parse eng ?t")
      (simp_all add: generateSliceHeader_two [OF assms(2)]
        resolveHeaderTemplate_Slice [OF assms(1)] parseTemplate_def)
  obtain w e where x: "execute eng ?t ?d = (w, e)"
    by (cases "execute eng ?t ?d")
  from g a b ea eb p x have "e = None \<and> out' = out @ w"
    by (cases e)
      (simp_all add: generateSliceHeader_two [OF assms(2)]
        resolveHeaderTemplate_Slice [OF assms(1)] parseTemplate_def executeTemplate_def)
  moreover from b eb have "parse eng (if InReg (Location len) then sliceLengthRegisterTemplateText
                    else sliceLengthStackTemplateText) = None
      \<and> execute eng (if InReg (Location len) then sliceLengthRegisterTemplateText
                      else sliceLengthStackTemplateText) (ParamData len) = (tb, None)"
    by (simp add: generateSliceLengthHeader_ok)
  ultimately show ?R using a ea x p by blast
next
  assume ?R
  then obtain ta tb w where
    a: "generateHeaderText eng elem [] = (ta, None)"
    and pl: "parse eng (if InReg (Location len) then sliceLengthRegisterTemplateText
                    else sliceLengthStackTemplateText) = None"
    and xl: "execute eng (if InReg (Location len) then sliceLengthRegisterTemplateText
                      else sliceLengthStackTemplateText) (ParamData len) = (tb, None)"
    and po: "parse eng (if InReg (Location s) then sliceRegisterHeaderTemplateText
                    else sliceStackHeaderTemplateText) = None"
    and xo: "execute eng (if InReg (Location s) then sliceRegisterHeaderTemplateText
                      else sliceStackHeaderTemplateText)
           (SliceWrapperData
              \<lparr>sliceParameter = s, SliceLengthText = tb, SliceTypeHeaderText = ta\<rparr>) = (w, None)"
    and o: "out' = out @ w"
    by blast
  from pl xl have b: "generateSliceLengthHeader eng len [] = (tb, None)"
    by (simp add: generateSliceLengthHeader_ok)
  from po have r: "resolveHeaderTemplate eng s =
      Inr (if InReg (Location s) then sliceRegisterHeaderTemplateText
           else sliceStackHeaderTemplateText)"
    by (simp add: resolveHeaderTemplate_Slice [OF assms(1)] parseTemplate_def)
  show ?L
    by (simp add: generateHeaderText_Slice [OF assms(1)] generateSliceHeader_two [OF assms(2)]
        a b r executeTemplate_def xo o)
qed

theorem slice_header_composition_witness:
  "generateHeaderText echoEngine goodSlice ''>'' =
     (''>slice_reg_header_template(xs[header_template(n:int);|slice_stack_length_header(len:int);]);'',
      None)"
proof -
  have k: "Kind goodSlice = reflect_Slice" by (simp add: goodSlice_def)
  have ps: "ParameterPieces goodSlice = [intParam, lenPiece]" by (simp add: goodSlice_def)
  have a: "generateHeaderText echoEngine intParam [] = (''header_template(n:int);'', None)"
    by (simp add: echoEngine_def example_defs kind_defs generateHeaderText.simps
        resolveHeaderTemplate_def parseTemplate_def executeTemplate_def)
  have b: "parse echoEngine (if InReg (Location lenPiece) then sliceLengthRegisterTemplateText
                    else sliceLengthStackTemplateText) = None
      \<and> execute echoEngine (if InReg (Location lenPiece) then sliceLengthRegisterTemplateText
                      else sliceLengthStackTemplateText) (ParamData lenPiece) =
          (''slice_stack_length_header(len:int);'', None)"
    by (simp add: echoEngine_def example_defs)
  have c: "parse echoEngine (if InReg (Location goodSlice) then sliceRegisterHeaderTemplateText
                    else sliceStackHeaderTemplateText) = None
      \<and> execute echoEngine (if InReg (Location goodSlice) then sliceRegisterHeaderTemplateText
                      else sliceStackHeaderTemplateText)
           (SliceWrapperData
              \<lparr>sliceParameter = goodSlice,
               SliceLengthText = ''slice_stack_length_header(len:int);'',
               SliceTypeHeaderText = ''header_template(n:int);''\<rparr>) =
          (''slice_reg_header_template(xs[header_template(n:int);|slice_stack_length_header(len:int);]);'',
           None)"
    by (simp add: echoEngine_def example_defs)
  show ?thesis
    apply (rule iffD2 [OF slice_header_composition [OF k ps]])
    apply (rule exI [of _ "''header_template(n:int);''"])
    apply (rule exI [of _ "''slice_stack_length_header(len:int);''"])
    apply (rule exI [of _ "''slice_reg_header_template(xs[header_template(n:int);|slice_stack_length_header(len:int);]);''"])
    using a b c apply simp
    done
qed

text \<open>
  C2, as amended. For a string or slice parameter whose piece count is not two,
  header generation writes nothing and returns the malformed-parameter error: a
  fixed error for a slice, an error carrying the piece count for a string (neither
  carries the name of the parameter). Hence success implies two pieces. With two
  pieces and templates that all parse and render without error, a string header
  always succeeds, and a slice header succeeds exactly when header generation of
  its element piece does. The claim as stated (success if and only if two pieces,
  an error that names the parameter) fails on the slice \<^const>\<open>brokenSlice\<close>, which
  has two pieces, and on two malformed slices of different names, which get the
  same error.
\<close>

theorem string_slice_piece_count:
  assumes "Kind p = reflect_String \<or> Kind p = reflect_Slice"
  shows "(length (ParameterPieces p) \<noteq> 2 \<longrightarrow>
            generateHeaderText eng p out =
              (out, Some (if Kind p = reflect_Slice then InvalidSliceParameter
                          else InvalidStringParameter (length (ParameterPieces p)))))
       \<and> (snd (generateHeaderText eng p out) = None \<longrightarrow> length (ParameterPieces p) = 2)
       \<and> ((\<forall>t. parse eng t = None) \<and> (\<forall>t d. snd (execute eng t d) = None)
            \<and> length (ParameterPieces p) = 2 \<longrightarrow>
          (snd (generateHeaderText eng p out) = None \<longleftrightarrow>
             (Kind p = reflect_Slice \<longrightarrow>
                snd (generateHeaderText eng (ParameterPieces p ! 0) []) = None)))"
proof (cases "Kind p = reflect_Slice")
  case True
  have h: "generateHeaderText eng p out = generateSliceHeader eng p out"
    by (rule generateHeaderText_Slice [OF True])
  have 1: "generateHeaderText eng p out = (out, Some InvalidSliceParameter)"
    if "length (ParameterPieces p) \<noteq> 2"
    unfolding h using that by (rule generateSliceHeader_malformed)
  have 2: "length (ParameterPieces p) = 2" if "snd (generateHeaderText eng p out) = None"
  proof (rule ccontr)
    assume "length (ParameterPieces p) \<noteq> 2"
    from 1 [OF this] that show False by simp
  qed
  have 3: "snd (generateHeaderText eng p out) = None \<longleftrightarrow>
                snd (generateHeaderText eng (ParameterPieces p ! 0) []) = None"
    if "\<forall>t. parse eng t = None" "\<forall>t d. snd (execute eng t d) = None"
      "length (ParameterPieces p) = 2"
  proof -
    from that have a: "\<And>t. parse eng t = None" and b: "\<And>t d. snd (execute eng t d) = None"
      by blast+
    show ?thesis
      unfolding h by (rule generateSliceHeader_infallible [OF a b that(3)])
  qed
  from 1 2 3 show ?thesis unfolding if_P [OF True] using True by blast
next
  case False
  with assms have s: "Kind p = reflect_String" by simp
  have h: "generateHeaderText eng p out = generateStringHeader eng p out"
    by (rule generateHeaderText_String [OF s])
  have 1: "generateHeaderText eng p out =
              (out, Some (InvalidStringParameter (length (ParameterPieces p))))"
    if "length (ParameterPieces p) \<noteq> 2"
    unfolding h using that by (rule generateStringHeader_malformed)
  have 2: "length (ParameterPieces p) = 2" if "snd (generateHeaderText eng p out) = None"
  proof (rule ccontr)
    assume "length (ParameterPieces p) \<noteq> 2"
    from 1 [OF this] that show False by simp
  qed
  have 3: "snd (generateHeaderText eng p out) = None"
    if "\<forall>t. parse eng t = None" "\<forall>t d. snd (execute eng t d) = None"
      "length (ParameterPieces p) = 2"
  proof -
    from that have a: "\<And>t. parse eng t = None" and b: "\<And>t d. snd (execute eng t d) = None"
      by blast+
    show ?thesis
      unfolding h by (rule generateStringHeader_infallible [OF a b that(3)])
  qed
  from 1 2 3 show ?thesis unfolding if_not_P [OF False] using False by blast
qed

theorem string_slice_piece_count_witness:
  "generateHeaderText echoEngine emptyString ''>'' = (''>'', Some (InvalidStringParameter 0))
   \<and> length (ParameterPieces goodString) = 2
   \<and> snd (generateHeaderText echoEngine goodString ''>'') = None"
proof -
  have k0: "Kind emptyString = reflect_String \<or> Kind emptyString = reflect_Slice"
    by (simp add: emptyString_def)
  have n0: "length (ParameterPieces emptyString) \<noteq> 2" "Kind emptyString \<noteq> reflect_Slice"
    "length (ParameterPieces emptyString) = 0"
    by (simp_all add: emptyString_def kind_defs)
  have k1: "Kind goodString = reflect_String \<or> Kind goodString = reflect_Slice"
    by (simp add: goodString_def)
  have n1: "length (ParameterPieces goodString) = 2" "Kind goodString \<noteq> reflect_Slice"
    by (simp_all add: goodString_def kind_defs)
  have e: "(\<forall>t. parse echoEngine t = None) \<and> (\<forall>t d. snd (execute echoEngine t d) = None)"
    by (simp add: echoEngine_def)
  from string_slice_piece_count [OF k0, of echoEngine "''>''"] n0
  have 1: "generateHeaderText echoEngine emptyString ''>'' =
             (''>'', Some (InvalidStringParameter 0))"
    by simp
  from string_slice_piece_count [OF k1, of echoEngine "''>''"] n1 e
  have 2: "snd (generateHeaderText echoEngine goodString ''>'') = None"
    by blast
  from 1 2 n1 show ?thesis by blast
qed

theorem two_pieces_not_sufficient_counterexample:
  "Kind brokenSlice = reflect_Slice \<and> length (ParameterPieces brokenSlice) = 2
   \<and> generateHeaderText echoEngine brokenSlice [] = ([], Some (InvalidStringParameter 0))
   \<and> Name unnamedSliceA \<noteq> Name unnamedSliceB
   \<and> generateHeaderText echoEngine unnamedSliceA [] = ([], Some InvalidSliceParameter)
   \<and> generateHeaderText echoEngine unnamedSliceB [] = ([], Some InvalidSliceParameter)"
  by (simp add: example_defs unnamedSliceA_def unnamedSliceB_def kind_defs
      generateHeaderText.simps generateSliceHeader.simps generateStringHeader_def)

text \<open>
  C1, as amended. For every parameter with a capture veto, template resolution
  yields the stub template of that veto (the parse of it), whatever the kind and
  the location are. Body generation of such a parameter executes that stub, against
  the parameter with its cleaned type label, when the kind is not array, struct or
  pointer; for those three kinds it writes nothing, vetoed or not. The claim as
  stated (a stub also for array, struct and pointer) fails on
  \<^const>\<open>vetoedStruct\<close>.
\<close>

theorem veto_emits_stub:
  assumes "NotCaptureReason p \<noteq> NoReason"
  shows "resolveParameterTemplate eng p =
           parseTemplate eng (spec_stubTemplate (NotCaptureReason p))
       \<and> (Kind p \<noteq> reflect_Array \<and> Kind p \<noteq> reflect_Struct \<and> Kind p \<noteq> reflect_Pointer
            \<and> parse eng (spec_stubTemplate (NotCaptureReason p)) = None \<longrightarrow>
          generateParameterText eng p out =
            (set_Type (cleanupTypeName (Type p)) p,
             out @ fst (execute eng (spec_stubTemplate (NotCaptureReason p))
                          (ParamData (set_Type (cleanupTypeName (Type p)) p))),
             map_option (\<lambda>m. CouldNotExecuteRead (TemplateError m))
               (snd (execute eng (spec_stubTemplate (NotCaptureReason p))
                       (ParamData (set_Type (cleanupTypeName (Type p)) p))))))
       \<and> (Kind p = reflect_Array \<or> Kind p = reflect_Struct \<or> Kind p = reflect_Pointer \<longrightarrow>
          generateParameterText eng p out = (p, out, None))"
proof -
  let ?t = "spec_stubTemplate (NotCaptureReason p)"
  let ?d = "ParamData (set_Type (cleanupTypeName (Type p)) p)"
  have r: "resolveParameterTemplate eng p = parseTemplate eng ?t"
    using assms
    by (cases "NotCaptureReason p")
      (simp_all add: resolveParameterTemplate_def spec_stubTemplate_def)
  have b: "generateParameterText eng p out =
            (set_Type (cleanupTypeName (Type p)) p, out @ fst (execute eng ?t ?d),
             map_option (\<lambda>m. CouldNotExecuteRead (TemplateError m)) (snd (execute eng ?t ?d)))"
    if c: "Kind p \<noteq> reflect_Array" "Kind p \<noteq> reflect_Struct" "Kind p \<noteq> reflect_Pointer"
      and ok: "parse eng ?t = None"
  proof -
    have "resolveParameterTemplate eng p = Inr ?t"
      using r ok by (simp add: parseTemplate_def)
    from generateParameterText_resolved [OF c this, of "fst (execute eng ?t ?d)"
        "snd (execute eng ?t ?d)" out]
    show ?thesis by simp
  qed
  have n: "generateParameterText eng p out = (p, out, None)"
    if "Kind p = reflect_Array \<or> Kind p = reflect_Struct \<or> Kind p = reflect_Pointer"
    using that by (auto simp add: generateParameterText_def)
  from r b n show ?thesis by blast
qed

theorem veto_emits_stub_witness:
  "Kind vetoedInt = reflect_Int \<and> NotCaptureReason vetoedInt = FieldLimitReached
   \<and> resolveParameterTemplate echoEngine vetoedInt = Inr cutForFieldLimitTemplateText
   \<and> generateParameterText echoEngine vetoedInt ''>'' =
       (Parameter ''k'' ''Widget'' reflect_Int onStack FieldLimitReached [],
        ''>cut_field_limit_template(k:Widget);'', None)"
proof -
  have v: "NotCaptureReason vetoedInt \<noteq> NoReason" by (simp add: vetoedInt_def)
  have t: "spec_stubTemplate FieldLimitReached = cutForFieldLimitTemplateText"
    by (simp add: spec_stubTemplate_def)
  have c: "Kind vetoedInt \<noteq> reflect_Array \<and> Kind vetoedInt \<noteq> reflect_Struct
        \<and> Kind vetoedInt \<noteq> reflect_Pointer
        \<and> parse echoEngine (spec_stubTemplate (NotCaptureReason vetoedInt)) = None"
    by (simp add: vetoedInt_def kind_defs echoEngine_def)
  have s: "set_Type (cleanupTypeName (Type vetoedInt)) vetoedInt =
           Parameter ''k'' ''Widget'' reflect_Int onStack FieldLimitReached []"
    by (simp add: vetoedInt_def cleanupTypeName_def TrimPrefix_def)
  have x: "execute echoEngine cutForFieldLimitTemplateText
             (ParamData (Parameter ''k'' ''Widget'' reflect_Int onStack FieldLimitReached [])) =
           (''cut_field_limit_template(k:Widget);'', None)"
    by (simp add: echoEngine_def)
  have k: "Kind vetoedInt = reflect_Int \<and> NotCaptureReason vetoedInt = FieldLimitReached"
    by (simp add: vetoedInt_def)
  from veto_emits_stub [OF v, of echoEngine "''>''"] c k show ?thesis
    by (simp add: t s x parseTemplate_echo)
qed

theorem vetoed_container_counterexample:
  "NotCaptureReason vetoedStruct = Unsupported \<and> Kind vetoedStruct = reflect_Struct
   \<and> generateParameterText echoEngine vetoedStruct [] = (vetoedStruct, [], None)
   \<and> fst (execute echoEngine unsupportedTypeTemplateText (ParamData vetoedStruct)) =
       ''unsupported_type_template(w:*Widget);''"
  by (simp add: vetoedStruct_def generateParameterText_def echoEngine_def)




text \<open>
  C9. \<^verbatim>\<open>cleanupTypeName\<close> removes one leading star and nothing else. Body
  generation leaves kind, location, capture veto and pieces of the parameter as
  they were and changes at most the type label, to its cleaned form; the template
  is executed against the parameter with the cleaned label.
\<close>

theorem type_label_cleanup:
  "cleanupTypeName ''*Widget'' = ''Widget''
   \<and> cleanupTypeName ''Widget'' = ''Widget''
   \<and> cleanupTypeName ''**Widget'' = ''*Widget''
   \<and> cleanupTypeName s = (case s of [] \<Rightarrow> [] | c # r \<Rightarrow> if c = CHR ''*'' then r else s)
   \<and> Kind (fst (generateParameterText eng p out)) = Kind p
   \<and> Location (fst (generateParameterText eng p out)) = Location p
   \<and> NotCaptureReason (fst (generateParameterText eng p out)) = NotCaptureReason p
   \<and> ParameterPieces (fst (generateParameterText eng p out)) = ParameterPieces p
   \<and> (Type (fst (generateParameterText eng p out)) = Type p
        \<or> Type (fst (generateParameterText eng p out)) = cleanupTypeName (Type p))
   \<and> (Kind p \<noteq> reflect_Array \<and> Kind p \<noteq> reflect_Struct \<and> Kind p \<noteq> reflect_Pointer
        \<and> resolveParameterTemplate eng p = Inr t \<longrightarrow>
      fst (snd (generateParameterText eng p out)) =
        out @ fst (execute eng t
                     (ParamData (Parameter (Name p) (cleanupTypeName (Type p)) (Kind p)
                        (Location p) (NotCaptureReason p) (ParameterPieces p)))))"
proof -
  have c: "cleanupTypeName ''*Widget'' = ''Widget''
   \<and> cleanupTypeName ''Widget'' = ''Widget''
   \<and> cleanupTypeName ''**Widget'' = ''*Widget''
   \<and> cleanupTypeName s = (case s of [] \<Rightarrow> [] | c # r \<Rightarrow> if c = CHR ''*'' then r else s)"
    by (simp add: cleanupTypeName_def TrimPrefix_def split: list.splits)
  have g: "generateParameterText eng p out = (p, snd (generateParameterText eng p out))
         \<or> generateParameterText eng p out =
             (set_Type (cleanupTypeName (Type p)) p, snd (generateParameterText eng p out))"
    by (simp add: generateParameterText_def Let_def split: sum.splits prod.splits option.splits)
  then have f: "fst (generateParameterText eng p out) = p
         \<or> fst (generateParameterText eng p out) = set_Type (cleanupTypeName (Type p)) p"
    by (metis fst_conv)
  have k: "Kind (fst (generateParameterText eng p out)) = Kind p"
    and l: "Location (fst (generateParameterText eng p out)) = Location p"
    and n: "NotCaptureReason (fst (generateParameterText eng p out)) = NotCaptureReason p"
    and q: "ParameterPieces (fst (generateParameterText eng p out)) = ParameterPieces p"
    and y: "Type (fst (generateParameterText eng p out)) = Type p
        \<or> Type (fst (generateParameterText eng p out)) = cleanupTypeName (Type p)"
    using f by auto
  have st: "set_Type (cleanupTypeName (Type p)) p =
            Parameter (Name p) (cleanupTypeName (Type p)) (Kind p)
                        (Location p) (NotCaptureReason p) (ParameterPieces p)"
    by (cases p) simp
  have x: "fst (snd (generateParameterText eng p out)) =
        out @ fst (execute eng t
                     (ParamData (Parameter (Name p) (cleanupTypeName (Type p)) (Kind p)
                        (Location p) (NotCaptureReason p) (ParameterPieces p))))"
    if h: "Kind p \<noteq> reflect_Array" "Kind p \<noteq> reflect_Struct" "Kind p \<noteq> reflect_Pointer"
      and r: "resolveParameterTemplate eng p = Inr t"
  proof -
    let ?d = "ParamData (set_Type (cleanupTypeName (Type p)) p)"
    from generateParameterText_resolved [OF h r, of "fst (execute eng t ?d)"
        "snd (execute eng t ?d)" out]
    show ?thesis by (simp add: st)
  qed
  from c k l n q y x show ?thesis by blast
qed

theorem type_label_cleanup_witness:
  "fst (snd (generateParameterText echoEngine vetoedInt ''>'')) =
     ''>cut_field_limit_template(k:Widget);''
   \<and> Type vetoedInt = ''*Widget''"
proof -
  have h: "Kind vetoedInt \<noteq> reflect_Array \<and> Kind vetoedInt \<noteq> reflect_Struct
        \<and> Kind vetoedInt \<noteq> reflect_Pointer
        \<and> resolveParameterTemplate echoEngine vetoedInt = Inr cutForFieldLimitTemplateText"
    by (simp add: vetoedInt_def kind_defs resolveParameterTemplate_def parseTemplate_echo)
  have c: "cleanupTypeName (Type vetoedInt) = ''Widget''"
    by (simp add: vetoedInt_def cleanupTypeName_def TrimPrefix_def)
  from type_label_cleanup [of "[]" echoEngine vetoedInt "''>''" cutForFieldLimitTemplateText] h
  have "fst (snd (generateParameterText echoEngine vetoedInt ''>'')) =
        ''>'' @ fst (execute echoEngine cutForFieldLimitTemplateText
                     (ParamData (Parameter (Name vetoedInt) (cleanupTypeName (Type vetoedInt))
                        (Kind vetoedInt) (Location vetoedInt) (NotCaptureReason vetoedInt)
                        (ParameterPieces vetoedInt))))"
    by blast
  then show ?thesis
    by (simp add: c) (simp add: vetoedInt_def echoEngine_def)
qed

end
